theory Spec2Isabelle
  imports Main "HOL-Library.Word" "HOL-Library.Sublist"
begin

section \<open>WalletWatcher: a shallow embedding of \<open>src/App.tsx\<close>\<close>

text \<open>
  The development embeds the current \<open>App.tsx\<close> (the version with ENS support):
  the pure helpers \<open>isENSName\<close> and \<open>shortenAddress\<close>, the token fetcher
  \<open>getTokenBalance\<close>, the resolver \<open>resolveAddressAndENS\<close> and the submit handler
  \<open>handleSubmit\<close>. The ethers library and the RPC node are not part of the repository;
  they are a parameter of every definition (the record \<open>ethers\<close> below), exactly as the
  repository's tests replace them by mocks.
\<close>

subsection \<open>JavaScript strings\<close>

text \<open>
  A JavaScript string is a sequence of UTF-16 code units. \<open>str\<close> embeds an ASCII
  literal of the source.
\<close>

type_synonym jsstring = "16 word list"

definition str :: "string \<Rightarrow> jsstring" where
  "str s = map (\<lambda>c. of_nat (of_char c)) s"

text \<open>
  \<open>String.prototype.trim\<close> removes the ECMAScript WhiteSpace and LineTerminator code
  points from both ends: TAB, LF, VT, FF, CR, SP, NBSP, the Unicode space separators, LS, PS
  and the byte order mark. All of them are single code units.
\<close>

definition isWhiteSpace :: "16 word \<Rightarrow> bool" where
  "isWhiteSpace c \<longleftrightarrow>
     c \<in> {0x0009, 0x000A, 0x000B, 0x000C, 0x000D, 0x0020, 0x00A0, 0x1680,
          0x2000, 0x2001, 0x2002, 0x2003, 0x2004, 0x2005, 0x2006, 0x2007,
          0x2008, 0x2009, 0x200A, 0x2028, 0x2029, 0x202F, 0x205F, 0x3000, 0xFEFF}"

definition str_trim :: "jsstring \<Rightarrow> jsstring" where
  "str_trim s = rev (dropWhile isWhiteSpace (rev (dropWhile isWhiteSpace s)))"

text \<open>\<open>s.includes(t)\<close>: \<open>t\<close> occurs in \<open>s\<close> as a contiguous run of code units.\<close>

fun str_includes :: "jsstring \<Rightarrow> jsstring \<Rightarrow> bool" where
  "str_includes [] t = (t = [])"
| "str_includes (c # s) t = (prefix t (c # s) \<or> str_includes s t)"

text \<open>\<open>s.endsWith(t)\<close>.\<close>

definition str_endsWith :: "jsstring \<Rightarrow> jsstring \<Rightarrow> bool" where
  "str_endsWith s t = suffix t s"

text \<open>
  \<open>s.slice(start, end)\<close> with the index normalisation of ECMAScript: a negative index
  counts from the end and is clamped at 0, a positive one is clamped at the length; an
  absent \<open>end\<close> is the length.
\<close>

definition slice_index :: "nat \<Rightarrow> int \<Rightarrow> nat" where
  "slice_index len i = (if i < 0 then nat (max (int len + i) 0) else min (nat i) len)"

definition str_slice :: "jsstring \<Rightarrow> int \<Rightarrow> int option \<Rightarrow> jsstring" where
  "str_slice s start end_opt =
     (let len = length s;
          from = slice_index len start;
          to = (case end_opt of None \<Rightarrow> len | Some e \<Rightarrow> slice_index len e)
      in take (to - from) (drop from s))"

subsection \<open>Pure helpers of \<open>App.tsx\<close>\<close>

text \<open>
  \<^verbatim>\<open>const isENSName = (input) =>
    input.includes('.') && (input.endsWith('.eth') || input.includes('.'));\<close>
\<close>

definition isENSName :: "jsstring \<Rightarrow> bool" where
  "isENSName input \<longleftrightarrow>
     str_includes input (str ''.'') \<and>
     (str_endsWith input (str ''.eth'') \<or> str_includes input (str ''.''))"

text \<open>
  \<^verbatim>\<open>const shortenAddress = (address) =>
    `${address.slice(0, 6)}...${address.slice(-4)}`;\<close>
\<close>

definition shortenAddress :: "jsstring \<Rightarrow> jsstring" where
  "shortenAddress address =
     str_slice address 0 (Some 6) @ str ''...'' @ str_slice address (- 4) None"

subsection \<open>Data model\<close>

text \<open>
  \<open>interface TokenBalance\<close>: the optional fields \<open>symbol?\<close>, \<open>decimals?\<close> and
  \<open>error?\<close> are \<open>None\<close> when the object literal does not set them; \<open>balance\<close> is
  \<open>string | null\<close>, with \<open>None\<close> for \<open>null\<close>.
\<close>

record TokenBalance =
  tb_symbol :: "jsstring option"
  tb_address :: jsstring
  tb_balance :: "jsstring option"
  tb_decimals :: "8 word option"
  tb_error :: "bool option"

text \<open>The object returned by \<open>resolveAddressAndENS\<close>.\<close>

record ResolvedIdentity =
  ri_address :: jsstring
  ri_ensName :: "jsstring option"

record WalletInfo =
  wi_address :: jsstring
  wi_ensName :: "jsstring option"
  wi_balance :: jsstring
  wi_tokenBalances :: "TokenBalance list"

record token =
  token_address :: jsstring
  token_name :: jsstring

definition TOKENS :: "token list" where
  "TOKENS =
     [\<lparr>token_address = str ''0xdAC17F958D2ee523a2206206994597C13D831ec7'',
       token_name = str ''Tether''\<rparr>,
      \<lparr>token_address = str ''0xA0b86991c6218b36c1d19D4a2e9Eb0cE3606eB48'',
       token_name = str ''USD Coin''\<rparr>]"

subsection \<open>Exceptions, the ethers library and the RPC node\<close>

text \<open>
  A thrown value. \<open>new Error(m)\<close> carries the message \<open>m\<close>; a thrown value that exposes
  no message has \<open>None\<close>.
\<close>

datatype js_error = JsError (message: "jsstring option")

text \<open>
  The external collaborators. A call that throws, or whose promise rejects, returns
  \<open>Inl\<close>. \<open>resolveName\<close> and \<open>lookupAddress\<close> resolve to \<open>string | null\<close>. The three
  contract reads take the address the \<open>Contract\<close> object was built for; their result
  types are those of \<open>ERC20_ABI\<close> (\<open>uint256\<close>, \<open>uint8\<close>, \<open>string\<close>).
\<close>

record ethers =
  isAddress :: "jsstring \<Rightarrow> bool"
  getAddress :: "jsstring \<Rightarrow> js_error + jsstring"
  formatEther :: "nat \<Rightarrow> js_error + jsstring"
  formatUnits :: "256 word \<Rightarrow> 8 word \<Rightarrow> js_error + jsstring"
  resolveName :: "jsstring \<Rightarrow> js_error + jsstring option"
  lookupAddress :: "jsstring \<Rightarrow> js_error + jsstring option"
  getBalance :: "jsstring \<Rightarrow> js_error + nat"
  contract_balanceOf :: "jsstring \<Rightarrow> jsstring \<Rightarrow> js_error + 256 word"
  contract_decimals :: "jsstring \<Rightarrow> js_error + 8 word"
  contract_symbol :: "jsstring \<Rightarrow> js_error + jsstring"

text \<open>The requests that reach the RPC node, in the order they are issued.\<close>

datatype rpc =
    ResolveName jsstring
  | LookupAddress jsstring
  | GetBalance jsstring
  | BalanceOf jsstring jsstring
  | Decimals jsstring
  | Symbol jsstring

subsection \<open>Asynchronous computations\<close>

text \<open>
  An \<open>async\<close> function is modelled by what it has done when its promise settles: the
  requests it issued, and either the rejection reason (\<open>Inl\<close>) or the value (\<open>Inr\<close>).
  Writes to \<open>console.error\<close> are not part of the model.
\<close>

type_synonym 'a io = "rpc list \<times> (js_error + 'a)"

definition ret :: "'a \<Rightarrow> 'a io" where
  "ret v = ([], Inr v)"

definition throw :: "js_error \<Rightarrow> 'a io" where
  "throw e = ([], Inl e)"

text \<open>A library function that issues no request.\<close>

definition lift :: "js_error + 'a \<Rightarrow> 'a io" where
  "lift r = ([], r)"

text \<open>\<open>await\<close> of one request.\<close>

definition call :: "rpc \<Rightarrow> js_error + 'a \<Rightarrow> 'a io" where
  "call c r = ([c], r)"

text \<open>Sequencing: the continuation runs only when the first part did not throw.\<close>

definition bind_io :: "'a io \<Rightarrow> ('a \<Rightarrow> 'b io) \<Rightarrow> 'b io" where
  "bind_io m f =
     (case m of
        (cs, Inl e) \<Rightarrow> (cs, Inl e)
      | (cs, Inr v) \<Rightarrow> (case f v of (cs', r) \<Rightarrow> (cs @ cs', r)))"

text \<open>\<open>try { m } catch (err) { h err }\<close>.\<close>

definition try_catch :: "'a io \<Rightarrow> (js_error \<Rightarrow> 'a io) \<Rightarrow> 'a io" where
  "try_catch m h =
     (case m of
        (cs, Inl e) \<Rightarrow> (case h e of (cs', r) \<Rightarrow> (cs @ cs', r))
      | (cs, Inr v) \<Rightarrow> (cs, Inr v))"

text \<open>
  \<open>Promise.all\<close>: every promise of the array has been started, so every request is
  issued; the result rejects when one of them rejects, and is the array of values
  otherwise, in the order of the array.
\<close>

definition promise_both :: "'a io \<Rightarrow> 'b io \<Rightarrow> ('a \<times> 'b) io" where
  "promise_both m n =
     (case m of (cs, r) \<Rightarrow>
        (case n of (cs', r') \<Rightarrow>
           (cs @ cs',
            (case r of
               Inl e \<Rightarrow> Inl e
             | Inr v \<Rightarrow> (case r' of Inl e \<Rightarrow> Inl e | Inr v' \<Rightarrow> Inr (v, v'))))))"

fun promise_all :: "'a io list \<Rightarrow> 'a list io" where
  "promise_all [] = ([], Inr [])"
| "promise_all (m # ms) =
     (case promise_both m (promise_all ms) of
        (cs, Inl e) \<Rightarrow> (cs, Inl e)
      | (cs, Inr (v, vs)) \<Rightarrow> (cs, Inr (v # vs)))"

subsection \<open>\<open>getTokenBalance\<close>\<close>

text \<open>The object literal \<open>{ address: tokenAddress, balance: null, error: true }\<close>.\<close>

definition failed_token :: "jsstring \<Rightarrow> TokenBalance" where
  "failed_token tokenAddress =
     \<lparr>tb_symbol = None, tb_address = tokenAddress, tb_balance = None,
      tb_decimals = None, tb_error = Some True\<rparr>"

text \<open>
  The outer \<open>try\<close> encloses the whole body; the inner \<open>try\<close> encloses only the call of
  \<open>getAddress\<close> and returns from its \<open>catch\<close>. The three reads are the array given to
  \<open>Promise.all\<close>; \<open>formatUnits\<close> is evaluated inside the outer \<open>try\<close> as well.
\<close>

definition getTokenBalance :: "ethers \<Rightarrow> jsstring \<Rightarrow> jsstring \<Rightarrow> TokenBalance io" where
  "getTokenBalance E walletAddress tokenAddress =
     try_catch
       (case getAddress E tokenAddress of
          Inl checksumError \<Rightarrow> ret (failed_token tokenAddress)
        | Inr checksummedTokenAddress \<Rightarrow>
            bind_io
              (promise_both
                 (call (BalanceOf checksummedTokenAddress walletAddress)
                    (contract_balanceOf E checksummedTokenAddress walletAddress))
                 (promise_both
                    (call (Decimals checksummedTokenAddress)
                       (contract_decimals E checksummedTokenAddress))
                    (call (Symbol checksummedTokenAddress)
                       (contract_symbol E checksummedTokenAddress))))
              (\<lambda>(rawBalance, decimals, symbol).
                 bind_io (lift (formatUnits E rawBalance decimals))
                   (\<lambda>balance.
                      ret \<lparr>tb_symbol = Some symbol,
                           tb_address = checksummedTokenAddress,
                           tb_balance = Some balance,
                           tb_decimals = Some decimals,
                           tb_error = None\<rparr>)))
       (\<lambda>err. ret (failed_token tokenAddress))"

subsection \<open>\<open>resolveAddressAndENS\<close>\<close>

text \<open>
  \<open>!resolvedAddress\<close> holds for \<open>null\<close> and for the empty string. The \<open>catch\<close> of the
  function rethrows what it caught. The \<open>catch\<close> around \<open>lookupAddress\<close> is empty, so
  \<open>ensName\<close> keeps its initial \<open>null\<close> when the lookup rejects.
\<close>

definition resolveAddressAndENS :: "ethers \<Rightarrow> jsstring \<Rightarrow> ResolvedIdentity io" where
  "resolveAddressAndENS E input =
     try_catch
       (if isENSName input then
          bind_io (call (ResolveName input) (resolveName E input))
            (\<lambda>resolvedAddress.
               case resolvedAddress of
                 None \<Rightarrow> throw (JsError (Some (str ''ENS name could not be resolved'')))
               | Some a \<Rightarrow>
                   if a = [] then
                     throw (JsError (Some (str ''ENS name could not be resolved'')))
                   else ret \<lparr>ri_address = a, ri_ensName = Some input\<rparr>)
        else if \<not> isAddress E (str_trim input) then
          throw (JsError (Some (str ''Please enter a valid ETH wallet address or ENS name'')))
        else
          bind_io (lift (getAddress E (str_trim input)))
            (\<lambda>resolvedAddress.
               bind_io
                 (try_catch (call (LookupAddress resolvedAddress) (lookupAddress E resolvedAddress))
                    (\<lambda>err. ret None))
                 (\<lambda>ensName. ret \<lparr>ri_address = resolvedAddress, ri_ensName = ensName\<rparr>)))
       (\<lambda>err. throw err)"

subsection \<open>The component state and \<open>handleSubmit\<close>\<close>

text \<open>The four \<open>useState\<close> cells of \<open>App\<close>.\<close>

record app_state =
  walletInput :: jsstring
  isLoading :: bool
  error :: jsstring
  walletInfo :: "WalletInfo option"

text \<open>
  What a run of \<open>handleSubmit\<close> does, in order: the call of \<open>e.preventDefault()\<close>, the
  calls of the state setters and the requests to the RPC node.
\<close>

datatype effect =
    PreventDefault
  | SetIsLoading bool
  | SetError jsstring
  | SetWalletInfo "WalletInfo option"
  | Rpc rpc

fun apply_effect :: "effect \<Rightarrow> app_state \<Rightarrow> app_state" where
  "apply_effect PreventDefault s = s"
| "apply_effect (SetIsLoading b) s = s\<lparr>isLoading := b\<rparr>"
| "apply_effect (SetError m) s = s\<lparr>error := m\<rparr>"
| "apply_effect (SetWalletInfo w) s = s\<lparr>walletInfo := w\<rparr>"
| "apply_effect (Rpc c) s = s"

definition run :: "effect list \<Rightarrow> app_state \<Rightarrow> app_state" where
  "run es s = fold apply_effect es s"

text \<open>
  The body of the \<open>try\<close> block up to the value given to \<open>setWalletInfo\<close>. Building the
  \<open>JsonRpcProvider\<close> object issues no request.
\<close>

definition fetchWalletInfo :: "ethers \<Rightarrow> jsstring \<Rightarrow> WalletInfo io" where
  "fetchWalletInfo E input =
     bind_io (resolveAddressAndENS E input)
       (\<lambda>r.
          bind_io (call (GetBalance (ri_address r)) (getBalance E (ri_address r)))
            (\<lambda>balance.
               bind_io (lift (formatEther E balance))
                 (\<lambda>formattedBalance.
                    bind_io
                      (promise_all
                         (map (\<lambda>token. getTokenBalance E (ri_address r) (token_address token))
                            TOKENS))
                      (\<lambda>fetchedTokenBalances.
                         ret \<lparr>wi_address = ri_address r,
                              wi_ensName = ri_ensName r,
                              wi_balance = formattedBalance,
                              wi_tokenBalances = fetchedTokenBalances\<rparr>))))"

text \<open>
  \<open>handleSubmit\<close> reads \<open>walletInput\<close> from the state of the render in which it was
  created. \<open>!walletInput.trim()\<close> holds exactly when the trimmed string is empty. The
  \<open>catch\<close> block sets a fixed message; the \<open>finally\<close> block runs on both paths.
\<close>

definition handleSubmit :: "ethers \<Rightarrow> app_state \<Rightarrow> effect list" where
  "handleSubmit E s =
     PreventDefault #
     (if str_trim (walletInput s) = [] then
        [SetError (str ''Please enter a wallet address or ENS Name'')]
      else
        [SetIsLoading True, SetError [], SetWalletInfo None] @
        (case fetchWalletInfo E (str_trim (walletInput s)) of
           (cs, Inr info) \<Rightarrow> map Rpc cs @ [SetWalletInfo (Some info)]
         | (cs, Inl err) \<Rightarrow>
             map Rpc cs @
             [SetError (str ''Failed to fetch wallet information. Please try again later'')]) @
        [SetIsLoading False])"

subsection \<open>Concrete collaborators\<close>

text \<open>
  Stand-ins for the library and the node, in the manner of the mocks of
  \<open>App.test.tsx\<close> and \<open>TokenBalance.test.tsx\<close>; the theorems are instantiated with them.
  \<open>test_ethers\<close> accepts the wallet address and the two configured token addresses,
  knows the name \<open>vitalik.eth\<close>, and answers every read.
\<close>

definition test_wallet :: jsstring where
  "test_wallet = str ''0x1234567890123456789012345678901234567890''"

definition test_ethers :: ethers where
  "test_ethers =
     \<lparr>isAddress = (\<lambda>a. a = test_wallet),
      getAddress =
        (\<lambda>a. if a = test_wallet \<or> a \<in> set (map token_address TOKENS) then Inr a
              else Inl (JsError (Some (str ''invalid address'')))),
      formatEther = (\<lambda>n. Inr (str ''1.5'')),
      formatUnits = (\<lambda>v d. Inr (str ''1.000000'')),
      resolveName =
        (\<lambda>n. if n = str ''vitalik.eth'' then Inr (Some test_wallet) else Inr None),
      lookupAddress = (\<lambda>a. Inr None),
      getBalance = (\<lambda>a. Inr 1500000000000000000),
      contract_balanceOf = (\<lambda>c w. Inr 1000000),
      contract_decimals = (\<lambda>c. Inr 6),
      contract_symbol = (\<lambda>c. Inr (str ''USDT''))\<rparr>"

text \<open>
  The mocks of the test ``handles contract call failure'': \<open>getAddress\<close> returns one
  fixed checksummed address, and the \<open>balanceOf\<close> read rejects.
\<close>

definition contract_error_ethers :: ethers where
  "contract_error_ethers =
     test_ethers
       \<lparr>getAddress := (\<lambda>a. Inr test_wallet),
        contract_balanceOf := (\<lambda>c w. Inl (JsError (Some (str ''Contract error''))))\<rparr>"

text \<open>The node is unreachable for the forward resolution of a name.\<close>

definition ens_outage_ethers :: ethers where
  "ens_outage_ethers =
     test_ethers\<lparr>resolveName := (\<lambda>n. Inl (JsError (Some (str ''network error''))))\<rparr>"

text \<open>
  A library that canonicalises: \<open>getAddress\<close> accepts the USDT address in lower case
  and in checksum case and returns the checksum case; \<open>isAddress\<close> accepts the same two
  strings; \<open>vitalik.eth\<close> resolves to the checksum case.
\<close>

definition checksum_ethers :: ethers where
  "checksum_ethers =
     test_ethers
       \<lparr>isAddress :=
          (\<lambda>a. a = str ''0xdac17f958d2ee523a2206206994597c13d831ec7'' \<or>
                a = str ''0xdAC17F958D2ee523a2206206994597C13D831ec7''),
        getAddress :=
          (\<lambda>a. if a = str ''0xdac17f958d2ee523a2206206994597c13d831ec7'' \<or>
                   a = str ''0xdAC17F958D2ee523a2206206994597C13D831ec7''
                then Inr (str ''0xdAC17F958D2ee523a2206206994597C13D831ec7'')
                else Inl (JsError (Some (str ''invalid address'')))),
        resolveName :=
          (\<lambda>n. if n = str ''vitalik.eth''
                then Inr (Some (str ''0xdAC17F958D2ee523a2206206994597C13D831ec7''))
                else Inr None)\<rparr>"

text \<open>The reverse lookup rejects.\<close>

definition lookup_error_ethers :: ethers where
  "lookup_error_ethers =
     test_ethers\<lparr>lookupAddress := (\<lambda>a. Inl (JsError (Some (str ''lookup failed''))))\<rparr>"

text \<open>
  \<open>getBalance\<close> rejects with \<open>new Error('Network error')\<close>, as in the test
  ``handles API errors gracefully'' of \<open>App.test.tsx\<close>.
\<close>

definition api_error_ethers :: ethers where
  "api_error_ethers =
     test_ethers\<lparr>getBalance := (\<lambda>a. Inl (JsError (Some (str ''Network error''))))\<rparr>"

text \<open>
  Component states: three blanks typed over a displayed result, and the wallet address
  typed into a fresh form.
\<close>

definition blank_state :: app_state where
  "blank_state =
     \<lparr>walletInput = str ''   '', isLoading = False, error = [],
      walletInfo =
        Some \<lparr>wi_address = test_wallet, wi_ensName = None, wi_balance = str ''1.5'',
              wi_tokenBalances = []\<rparr>\<rparr>"

definition address_state :: app_state where
  "address_state =
     \<lparr>walletInput = test_wallet, isLoading = False, error = [], walletInfo = None\<rparr>"

section \<open>Properties\<close>

subsection \<open>Evaluation of the asynchronous combinators\<close>

lemmas io_defs =
  ret_def throw_def lift_def call_def bind_io_def try_catch_def promise_both_def

text \<open>The value of \<open>getTokenBalance\<close>, branch by branch.\<close>

lemma getTokenBalance_cases:
  "snd (getTokenBalance E w t) =
     (case getAddress E t of
        Inl e \<Rightarrow> Inr (failed_token t)
      | Inr c \<Rightarrow>
         (case contract_balanceOf E c w of
            Inl e \<Rightarrow> Inr (failed_token t)
          | Inr rawBalance \<Rightarrow>
             (case contract_decimals E c of
                Inl e \<Rightarrow> Inr (failed_token t)
              | Inr d \<Rightarrow>
                 (case contract_symbol E c of
                    Inl e \<Rightarrow> Inr (failed_token t)
                  | Inr sy \<Rightarrow>
                     (case formatUnits E rawBalance d of
                        Inl e \<Rightarrow> Inr (failed_token t)
                      | Inr b \<Rightarrow>
                          Inr \<lparr>tb_symbol = Some sy, tb_address = c, tb_balance = Some b,
                               tb_decimals = Some d, tb_error = None\<rparr>)))))"
  by (simp add: getTokenBalance_def io_defs split: sum.splits)

text \<open>The requests of \<open>getTokenBalance\<close>: none, or the three reads.\<close>

lemma getTokenBalance_calls:
  "fst (getTokenBalance E w t) =
     (case getAddress E t of
        Inl e \<Rightarrow> []
      | Inr c \<Rightarrow> [BalanceOf c w, Decimals c, Symbol c])"
  by (simp add: getTokenBalance_def io_defs split: sum.splits)

lemma str_includes_single: "str_includes s [c] \<longleftrightarrow> c \<in> set s"
  by (induction s) auto

text \<open>\<open>trim\<close> on strings that are all blank, and on strings without a blank.\<close>

lemma dropWhile_all_iff:
  "(\<forall>x\<in>set (dropWhile P s). P x) \<longleftrightarrow> (\<forall>x\<in>set s. P x)"
proof
  assume "\<forall>x\<in>set (dropWhile P s). P x"
  then have "dropWhile P s = []"
    by (metis hd_dropWhile hd_in_set)
  then show "\<forall>x\<in>set s. P x"
    by simp
next
  assume "\<forall>x\<in>set s. P x"
  then show "\<forall>x\<in>set (dropWhile P s). P x"
    using set_dropWhileD by fastforce
qed

lemma str_trim_empty_iff: "str_trim s = [] \<longleftrightarrow> (\<forall>c\<in>set s. isWhiteSpace c)"
  by (simp add: str_trim_def dropWhile_all_iff)

lemma dropWhile_none: "\<forall>c\<in>set s. \<not> P c \<Longrightarrow> dropWhile P s = s"
  by (cases s) auto

lemma str_trim_no_space: "\<forall>c\<in>set s. \<not> isWhiteSpace c \<Longrightarrow> str_trim s = s"
  by (simp add: str_trim_def dropWhile_none)

lemma test_wallet_trim: "str_trim test_wallet = test_wallet"
  by (rule str_trim_no_space) (simp add: test_wallet_def str_def isWhiteSpace_def)

lemma test_wallet_not_ens: "\<not> isENSName test_wallet"
  by (simp add: isENSName_def test_wallet_def str_def)

lemma vitalik_is_ens: "isENSName (str ''vitalik.eth'')"
  by (simp add: isENSName_def str_def)

text \<open>The two paths of \<open>resolveAddressAndENS\<close>, with the requests each one issues.\<close>

lemma resolve_ens_path:
  "isENSName input \<Longrightarrow>
   resolveAddressAndENS E input =
     ([ResolveName input],
      (case resolveName E input of
         Inl e \<Rightarrow> Inl e
       | Inr None \<Rightarrow> Inl (JsError (Some (str ''ENS name could not be resolved'')))
       | Inr (Some a) \<Rightarrow>
           if a = [] then Inl (JsError (Some (str ''ENS name could not be resolved'')))
           else Inr \<lparr>ri_address = a, ri_ensName = Some input\<rparr>))"
  by (simp add: resolveAddressAndENS_def io_defs split: sum.splits option.splits)

lemma resolve_address_path:
  "\<not> isENSName input \<Longrightarrow>
   resolveAddressAndENS E input =
     (if \<not> isAddress E (str_trim input) then
        ([], Inl (JsError (Some (str ''Please enter a valid ETH wallet address or ENS name''))))
      else
        (case getAddress E (str_trim input) of
           Inl e \<Rightarrow> ([], Inl e)
         | Inr a \<Rightarrow>
             ([LookupAddress a],
              Inr \<lparr>ri_address = a,
                   ri_ensName = (case lookupAddress E a of Inl e \<Rightarrow> None | Inr n \<Rightarrow> n)\<rparr>)))"
  by (simp add: resolveAddressAndENS_def io_defs split: sum.splits option.splits)

subsection \<open>The token fetcher\<close>

text \<open>
  C1. For every wallet address and every token address, \<open>getTokenBalance\<close> never throws:
  its promise always resolves to a value. When \<open>getAddress\<close> throws on the token address,
  the value is \<open>{ address: tokenAddress, balance: null, error: true }\<close> with the address
  as it was passed in; when \<open>getAddress\<close> succeeds and one of the reads \<open>balanceOf\<close>,
  \<open>decimals\<close>, \<open>symbol\<close> rejects, the value is the same object, again with the address as
  passed in and not the checksummed one.
\<close>

theorem getTokenBalance_never_throws:
  "(\<exists>r. snd (getTokenBalance E walletAddress tokenAddress) = Inr r) \<and>
   (isl (getAddress E tokenAddress) \<longrightarrow>
      snd (getTokenBalance E walletAddress tokenAddress) = Inr (failed_token tokenAddress)) \<and>
   (\<forall>c. getAddress E tokenAddress = Inr c \<and>
        (isl (contract_balanceOf E c walletAddress) \<or> isl (contract_decimals E c) \<or>
         isl (contract_symbol E c)) \<longrightarrow>
      snd (getTokenBalance E walletAddress tokenAddress) = Inr (failed_token tokenAddress))"
  by (auto simp add: getTokenBalance_cases isl_def split: sum.splits)

text \<open>
  The two failing tests of \<open>TokenBalance.test.tsx\<close>: the token address
  \<open>invalid-address\<close>, which \<open>getAddress\<close> refuses, and the USDT address with a failing
  \<open>balanceOf\<close>, where the result carries the USDT address and not what \<open>getAddress\<close>
  returned.
\<close>

theorem getTokenBalance_never_throws_witness:
  "isl (getAddress test_ethers (str ''invalid-address'')) \<and>
   snd (getTokenBalance test_ethers test_wallet (str ''invalid-address'')) =
     Inr \<lparr>tb_symbol = None, tb_address = str ''invalid-address'', tb_balance = None,
          tb_decimals = None, tb_error = Some True\<rparr> \<and>
   getAddress contract_error_ethers (str ''0xdAC17F958D2ee523a2206206994597C13D831ec7'') =
     Inr (str ''0x1234567890123456789012345678901234567890'') \<and>
   isl (contract_balanceOf contract_error_ethers
          (str ''0x1234567890123456789012345678901234567890'') test_wallet) \<and>
   snd (getTokenBalance contract_error_ethers test_wallet
          (str ''0xdAC17F958D2ee523a2206206994597C13D831ec7'')) =
     Inr \<lparr>tb_symbol = None, tb_address = str ''0xdAC17F958D2ee523a2206206994597C13D831ec7'',
          tb_balance = None, tb_decimals = None, tb_error = Some True\<rparr>"
proof -
  let ?usdt = "str ''0xdAC17F958D2ee523a2206206994597C13D831ec7''"
  have a: "isl (getAddress test_ethers (str ''invalid-address''))"
    by (simp add: test_ethers_def test_wallet_def TOKENS_def str_def)
  have b: "getAddress contract_error_ethers ?usdt = Inr test_wallet"
    by (simp add: contract_error_ethers_def)
  have c: "isl (contract_balanceOf contract_error_ethers test_wallet test_wallet)"
    by (simp add: contract_error_ethers_def)
  from a getTokenBalance_never_throws [of test_ethers test_wallet "str ''invalid-address''"]
  have d: "snd (getTokenBalance test_ethers test_wallet (str ''invalid-address'')) =
             Inr (failed_token (str ''invalid-address''))"
    by blast
  from b c getTokenBalance_never_throws [of contract_error_ethers test_wallet ?usdt]
  have e: "snd (getTokenBalance contract_error_ethers test_wallet ?usdt) =
             Inr (failed_token ?usdt)"
    by blast
  from a b c d e show ?thesis
    by (simp add: failed_token_def test_wallet_def)
qed

text \<open>
  C9. Every \<open>TokenBalance\<close> that \<open>getTokenBalance\<close> resolves to has \<open>balance\<close> null
  exactly when \<open>error\<close> is true. So no result has both a balance and the error flag, and
  a result without the error flag has a balance, a symbol and the decimals.
\<close>

theorem getTokenBalance_balance_null_iff_error:
  assumes "snd (getTokenBalance E walletAddress tokenAddress) = Inr r"
  shows "(tb_balance r = None \<longleftrightarrow> tb_error r = Some True) \<and>
         \<not> (tb_balance r \<noteq> None \<and> tb_error r = Some True) \<and>
         (tb_error r \<noteq> Some True \<longrightarrow>
            tb_balance r \<noteq> None \<and> tb_symbol r \<noteq> None \<and> tb_decimals r \<noteq> None)"
  using assms
  by (auto simp add: getTokenBalance_cases failed_token_def split: sum.splits)

text \<open>The successful test of \<open>TokenBalance.test.tsx\<close>, and the result it expects.\<close>

theorem getTokenBalance_balance_null_iff_error_witness:
  "snd (getTokenBalance test_ethers test_wallet
          (str ''0xdAC17F958D2ee523a2206206994597C13D831ec7'')) =
     Inr \<lparr>tb_symbol = Some (str ''USDT''),
          tb_address = str ''0xdAC17F958D2ee523a2206206994597C13D831ec7'',
          tb_balance = Some (str ''1.000000''), tb_decimals = Some 6, tb_error = None\<rparr> \<and>
   (tb_balance \<lparr>tb_symbol = Some (str ''USDT''),
          tb_address = str ''0xdAC17F958D2ee523a2206206994597C13D831ec7'',
          tb_balance = Some (str ''1.000000''), tb_decimals = Some 6, tb_error = None\<rparr> = None
      \<longleftrightarrow> tb_error \<lparr>tb_symbol = Some (str ''USDT''),
          tb_address = str ''0xdAC17F958D2ee523a2206206994597C13D831ec7'',
          tb_balance = Some (str ''1.000000''), tb_decimals = Some (6 :: 8 word),
          tb_error = None\<rparr> = Some True)"
proof -
  let ?usdt = "str ''0xdAC17F958D2ee523a2206206994597C13D831ec7''"
  let ?r = "\<lparr>tb_symbol = Some (str ''USDT''), tb_address = ?usdt,
             tb_balance = Some (str ''1.000000''), tb_decimals = Some (6 :: 8 word),
             tb_error = None\<rparr>"
  have a: "snd (getTokenBalance test_ethers test_wallet ?usdt) = Inr ?r"
    by (simp add: getTokenBalance_cases test_ethers_def TOKENS_def)
  from getTokenBalance_balance_null_iff_error [OF a] a show ?thesis
    by blast
qed

subsection \<open>The pure helpers\<close>

text \<open>
  C4. For every input string, \<open>isENSName\<close> is true exactly when the string contains the
  character \<open>.\<close>: the \<open>.eth\<close> test adds nothing.
\<close>

theorem isENSName_iff_contains_dot:
  "isENSName input \<longleftrightarrow> of_nat (of_char CHR ''.'') \<in> set input"
  by (auto simp add: isENSName_def str_def str_includes_single)

text \<open>The inputs of the tests of \<open>isENSName\<close> in \<open>Utils.test.tsx\<close>.\<close>

theorem isENSName_iff_contains_dot_witness:
  "isENSName (str ''vitalik.eth'') \<and> isENSName (str ''example.com'') \<and>
   \<not> isENSName (str ''0x1234567890123456789012345678901234567890'') \<and>
   \<not> isENSName (str ''vitalik'')"
  by (simp add: isENSName_iff_contains_dot str_def)

text \<open>
  C8. For every string, \<open>shortenAddress\<close> is its first 6 code units, then \<open>...\<close>, then
  its last 4 code units (all of them when there are fewer); the example of the tests.
\<close>

theorem shortenAddress_first6_last4:
  "shortenAddress address =
     take 6 address @ str ''...'' @ drop (length address - 4) address \<and>
   shortenAddress (str ''0x1234567890123456789012345678901234567890'') = str ''0x1234...7890''"
  by (simp add: shortenAddress_def str_slice_def slice_index_def str_def Let_def min_def
      max_def nat_diff_distrib)

text \<open>The test ``handles short addresses'': the two slices overlap.\<close>

theorem shortenAddress_first6_last4_witness:
  "shortenAddress (str ''0x123456'') = str ''0x1234...3456''"
  using shortenAddress_first6_last4 [of "str ''0x123456''"]
  by (simp add: str_def)

subsection \<open>The resolver\<close>

text \<open>
  C6. On the address path, once the input is validated and checksummed to \<open>a\<close>, a reverse
  lookup that rejects or that finds no name is not an error: the resolution succeeds with
  the address \<open>a\<close> and no \<open>ensName\<close>. On the ENS path the only request is the forward
  resolution, so the reverse lookup is not consulted, and a successful result carries the
  input itself as \<open>ensName\<close>.
\<close>

theorem reverse_lookup_is_best_effort:
  "(\<not> isENSName input \<and> isAddress E (str_trim input) \<and>
    getAddress E (str_trim input) = Inr a \<and>
    (isl (lookupAddress E a) \<or> lookupAddress E a = Inr None) \<longrightarrow>
      snd (resolveAddressAndENS E input) = Inr \<lparr>ri_address = a, ri_ensName = None\<rparr>) \<and>
   (isENSName input \<longrightarrow>
      fst (resolveAddressAndENS E input) = [ResolveName input] \<and>
      (\<forall>r. snd (resolveAddressAndENS E input) = Inr r \<longrightarrow> ri_ensName r = Some input))"
  by (auto simp add: resolve_ens_path resolve_address_path isl_def
      split: sum.splits option.splits if_splits)

text \<open>
  The wallet address with a rejecting reverse lookup, and the name \<open>vitalik.eth\<close>.
\<close>

theorem reverse_lookup_is_best_effort_witness:
  "\<not> isENSName test_wallet \<and>
   isAddress lookup_error_ethers (str_trim test_wallet) \<and>
   getAddress lookup_error_ethers (str_trim test_wallet) = Inr test_wallet \<and>
   isl (lookupAddress lookup_error_ethers test_wallet) \<and>
   snd (resolveAddressAndENS lookup_error_ethers test_wallet) =
     Inr \<lparr>ri_address = test_wallet, ri_ensName = None\<rparr> \<and>
   isENSName (str ''vitalik.eth'') \<and>
   fst (resolveAddressAndENS test_ethers (str ''vitalik.eth'')) =
     [ResolveName (str ''vitalik.eth'')] \<and>
   snd (resolveAddressAndENS test_ethers (str ''vitalik.eth'')) =
     Inr \<lparr>ri_address = test_wallet, ri_ensName = Some (str ''vitalik.eth'')\<rparr>"
proof -
  have a: "\<not> isENSName test_wallet"
    by (rule test_wallet_not_ens)
  have b: "isAddress lookup_error_ethers (str_trim test_wallet)"
    by (simp add: test_wallet_trim lookup_error_ethers_def test_ethers_def)
  have c: "getAddress lookup_error_ethers (str_trim test_wallet) = Inr test_wallet"
    by (simp add: test_wallet_trim lookup_error_ethers_def test_ethers_def)
  have d: "isl (lookupAddress lookup_error_ethers test_wallet)"
    by (simp add: lookup_error_ethers_def)
  from a b c d
    reverse_lookup_is_best_effort
      [where input = test_wallet and E = lookup_error_ethers and a = test_wallet]
  have e: "snd (resolveAddressAndENS lookup_error_ethers test_wallet) =
             Inr \<lparr>ri_address = test_wallet, ri_ensName = None\<rparr>"
    by blast
  have f: "isENSName (str ''vitalik.eth'')"
    by (rule vitalik_is_ens)
  from f
    reverse_lookup_is_best_effort
      [where input = "str ''vitalik.eth''" and E = test_ethers and a = test_wallet]
  have g: "fst (resolveAddressAndENS test_ethers (str ''vitalik.eth'')) =
             [ResolveName (str ''vitalik.eth'')]"
    by blast
  have "test_wallet \<noteq> []"
    by (simp add: test_wallet_def str_def)
  then have h: "snd (resolveAddressAndENS test_ethers (str ''vitalik.eth'')) =
             Inr \<lparr>ri_address = test_wallet, ri_ensName = Some (str ''vitalik.eth'')\<rparr>"
    by (simp add: resolve_ens_path [OF f] test_ethers_def)
  from a b c d e f g h show ?thesis
    by blast
qed

text \<open>
  The library with the unreachable node still is a well-behaved one: its \<open>isAddress\<close>
  accepts only what its \<open>getAddress\<close> accepts, and every address it returns is
  checksummed.
\<close>

lemma ens_outage_ethers_library:
  "(isAddress ens_outage_ethers x \<longrightarrow> \<not> isl (getAddress ens_outage_ethers x)) \<and>
   (getAddress ens_outage_ethers x = Inr a \<longrightarrow> getAddress ens_outage_ethers a = Inr a) \<and>
   (resolveName ens_outage_ethers n = Inr (Some a) \<longrightarrow> getAddress ens_outage_ethers a = Inr a)"
  by (auto simp add: ens_outage_ethers_def test_ethers_def split: if_splits)

text \<open>
  C2, as stated: \<open>resolveAddressAndENS\<close> throws exactly when the input is ENS-style and
  the forward resolution returns no address, or the input is an address candidate that
  fails \<open>isAddress\<close>. The statement fails when the promise of \<open>resolveName\<close> rejects:
  the function rethrows the rejection, although no resolution returned and the input is
  not an address candidate.
\<close>

theorem resolveAddressAndENS_rejection_counterexample:
  "isl (snd (resolveAddressAndENS ens_outage_ethers (str ''vitalik.eth''))) \<and>
   \<not> ((isENSName (str ''vitalik.eth'') \<and>
         (resolveName ens_outage_ethers (str ''vitalik.eth'') = Inr None \<or>
          resolveName ens_outage_ethers (str ''vitalik.eth'') = Inr (Some []))) \<or>
       (\<not> isENSName (str ''vitalik.eth'') \<and>
         \<not> isAddress ens_outage_ethers (str_trim (str ''vitalik.eth''))))"
  by (simp add: resolve_ens_path [OF vitalik_is_ens] vitalik_is_ens ens_outage_ethers_def)

text \<open>
  C2, amended. \<open>resolveAddressAndENS\<close> throws exactly when the input is ENS-style and
  the forward resolution rejects or returns no address, or the input is an address
  candidate and its trimmed form fails \<open>isAddress\<close>. In every other case it returns an
  identity with a checksummed address, that is, one that \<open>getAddress\<close> returns unchanged.

  The library is the one the code is written against: \<open>isAddress\<close> accepts only what
  \<open>getAddress\<close> accepts (in ethers, \<open>isAddress\<close> is \<open>getAddress\<close> inside a \<open>try\<close>),
  what \<open>getAddress\<close> returns is checksummed, and an address that \<open>resolveName\<close> resolves
  to is checksummed. ``No address'' is \<open>null\<close> or the empty string, the two values for
  which \<open>!resolvedAddress\<close> holds.
\<close>

theorem resolveAddressAndENS_fails_iff:
  assumes valid: "\<And>x. isAddress E x \<Longrightarrow> \<not> isl (getAddress E x)"
    and canonical: "\<And>x a. getAddress E x = Inr a \<Longrightarrow> getAddress E a = Inr a"
    and resolved: "\<And>n a. resolveName E n = Inr (Some a) \<Longrightarrow> a \<noteq> [] \<Longrightarrow> getAddress E a = Inr a"
  shows
    "(isl (snd (resolveAddressAndENS E input)) \<longleftrightarrow>
        (isENSName input \<and>
           (isl (resolveName E input) \<or> resolveName E input = Inr None \<or>
            resolveName E input = Inr (Some []))) \<or>
        (\<not> isENSName input \<and> \<not> isAddress E (str_trim input))) \<and>
     (\<not> isl (snd (resolveAddressAndENS E input)) \<longrightarrow>
        (\<exists>r. snd (resolveAddressAndENS E input) = Inr r \<and>
             getAddress E (ri_address r) = Inr (ri_address r)))"
proof (cases "isENSName input")
  case True
  show ?thesis
  proof (cases "resolveName E input")
    case (Inl e)
    with True show ?thesis
      by (simp add: resolve_ens_path)
  next
    case (Inr found)
    show ?thesis
    proof (cases found)
      case None
      with True Inr show ?thesis
        by (simp add: resolve_ens_path)
    next
      case (Some a)
      show ?thesis
      proof (cases "a = []")
        case True
        with \<open>isENSName input\<close> Inr Some show ?thesis
          by (simp add: resolve_ens_path)
      next
        case False
        with Inr Some have "getAddress E a = Inr a"
          by (simp add: resolved)
        with \<open>isENSName input\<close> Inr Some False show ?thesis
          by (simp add: resolve_ens_path)
      qed
    qed
  qed
next
  case False
  show ?thesis
  proof (cases "isAddress E (str_trim input)")
    case True
    then have "\<not> isl (getAddress E (str_trim input))"
      by (rule valid)
    then obtain a where a: "getAddress E (str_trim input) = Inr a"
      by (cases "getAddress E (str_trim input)") simp_all
    then have "getAddress E a = Inr a"
      by (rule canonical)
    with False True a show ?thesis
      by (simp add: resolve_address_path)
  next
    case no: False
    with False show ?thesis
      by (simp add: resolve_address_path)
  qed
qed

text \<open>
  The USDT address typed in lower case between blanks resolves to its checksum case; the
  name \<open>vitalik.eth\<close> resolves; the name \<open>nobody.eth\<close>, which the resolver does not
  know, and the string \<open>invalid-address\<close> make the function throw.
\<close>

theorem resolveAddressAndENS_fails_iff_witness:
  "\<not> isENSName (str '' 0xdac17f958d2ee523a2206206994597c13d831ec7 '') \<and>
   isAddress checksum_ethers (str_trim (str '' 0xdac17f958d2ee523a2206206994597c13d831ec7 '')) \<and>
   \<not> isl (snd (resolveAddressAndENS checksum_ethers
                 (str '' 0xdac17f958d2ee523a2206206994597c13d831ec7 ''))) \<and>
   (\<exists>r. snd (resolveAddressAndENS checksum_ethers
                (str '' 0xdac17f958d2ee523a2206206994597c13d831ec7 '')) = Inr r \<and>
        getAddress checksum_ethers (ri_address r) = Inr (ri_address r)) \<and>
   ri_address (projr (snd (resolveAddressAndENS checksum_ethers
                (str '' 0xdac17f958d2ee523a2206206994597c13d831ec7 '')))) =
     str ''0xdAC17F958D2ee523a2206206994597C13D831ec7'' \<and>
   \<not> isl (snd (resolveAddressAndENS checksum_ethers (str ''vitalik.eth''))) \<and>
   isENSName (str ''nobody.eth'') \<and>
   resolveName checksum_ethers (str ''nobody.eth'') = Inr None \<and>
   isl (snd (resolveAddressAndENS checksum_ethers (str ''nobody.eth''))) \<and>
   \<not> isENSName (str ''invalid-address'') \<and>
   \<not> isAddress checksum_ethers (str_trim (str ''invalid-address'')) \<and>
   isl (snd (resolveAddressAndENS checksum_ethers (str ''invalid-address'')))"
proof -
  let ?typed = "str '' 0xdac17f958d2ee523a2206206994597c13d831ec7 ''"
  let ?lower = "str ''0xdac17f958d2ee523a2206206994597c13d831ec7''"
  let ?usdt = "str ''0xdAC17F958D2ee523a2206206994597C13D831ec7''"
  have inst:
    "(isl (snd (resolveAddressAndENS checksum_ethers input)) \<longleftrightarrow>
        (isENSName input \<and>
           (isl (resolveName checksum_ethers input) \<or>
            resolveName checksum_ethers input = Inr None \<or>
            resolveName checksum_ethers input = Inr (Some []))) \<or>
        (\<not> isENSName input \<and> \<not> isAddress checksum_ethers (str_trim input))) \<and>
     (\<not> isl (snd (resolveAddressAndENS checksum_ethers input)) \<longrightarrow>
        (\<exists>r. snd (resolveAddressAndENS checksum_ethers input) = Inr r \<and>
             getAddress checksum_ethers (ri_address r) = Inr (ri_address r)))"
    for input
  proof (rule resolveAddressAndENS_fails_iff)
    show "isAddress checksum_ethers x \<Longrightarrow> \<not> isl (getAddress checksum_ethers x)" for x
      by (simp add: checksum_ethers_def)
    show "getAddress checksum_ethers x = Inr a \<Longrightarrow> getAddress checksum_ethers a = Inr a"
      for x a
      by (auto simp add: checksum_ethers_def split: if_splits)
    show "resolveName checksum_ethers n = Inr (Some a) \<Longrightarrow> a \<noteq> [] \<Longrightarrow>
          getAddress checksum_ethers a = Inr a" for n a
      by (auto simp add: checksum_ethers_def split: if_splits)
  qed
  have trim: "str_trim ?typed = ?lower"
    by (simp add: str_trim_def str_def isWhiteSpace_def)
  have a: "\<not> isENSName ?typed"
    by (simp add: isENSName_def str_def)
  have b: "isAddress checksum_ethers (str_trim ?typed)"
    by (simp add: trim checksum_ethers_def)
  from a b inst [of ?typed]
  have c: "\<not> isl (snd (resolveAddressAndENS checksum_ethers ?typed))"
    by blast
  with inst [of ?typed]
  have d: "\<exists>r. snd (resolveAddressAndENS checksum_ethers ?typed) = Inr r \<and>
             getAddress checksum_ethers (ri_address r) = Inr (ri_address r)"
    by blast
  have e: "ri_address (projr (snd (resolveAddressAndENS checksum_ethers ?typed))) = ?usdt"
    by (simp add: resolve_address_path [OF a] trim checksum_ethers_def)
  have v: "resolveName checksum_ethers (str ''vitalik.eth'') = Inr (Some ?usdt)"
    by (simp add: checksum_ethers_def)
  have "?usdt \<noteq> []"
    by (simp add: str_def)
  with v vitalik_is_ens inst [of "str ''vitalik.eth''"]
  have f: "\<not> isl (snd (resolveAddressAndENS checksum_ethers (str ''vitalik.eth'')))"
    by simp
  have g: "isENSName (str ''nobody.eth'')"
    by (simp add: isENSName_def str_def)
  have h: "resolveName checksum_ethers (str ''nobody.eth'') = Inr None"
    by (simp add: checksum_ethers_def str_def)
  from g h inst [of "str ''nobody.eth''"]
  have i: "isl (snd (resolveAddressAndENS checksum_ethers (str ''nobody.eth'')))"
    by blast
  have j: "\<not> isENSName (str ''invalid-address'')"
    by (simp add: isENSName_def str_def)
  have k: "\<not> isAddress checksum_ethers (str_trim (str ''invalid-address''))"
    by (simp add: checksum_ethers_def str_trim_def str_def isWhiteSpace_def)
  from j k inst [of "str ''invalid-address''"]
  have l: "isl (snd (resolveAddressAndENS checksum_ethers (str ''invalid-address'')))"
    by blast
  from a b c d e f g h i j k l show ?thesis
    by blast
qed

subsection \<open>The submit handler\<close>

text \<open>The run of \<open>handleSubmit\<close> on a blank input.\<close>

lemma handleSubmit_blank:
  "\<forall>c\<in>set (walletInput s). isWhiteSpace c \<Longrightarrow>
   handleSubmit E s =
     [PreventDefault, SetError (str ''Please enter a wallet address or ENS Name'')]"
  by (simp add: handleSubmit_def str_trim_empty_iff)

text \<open>
  A submission of the wallet address that succeeds: the requests reach the node, and
  the loading flag is raised and lowered.
\<close>

lemma getTokenBalance_test_ethers:
  assumes "t \<in> set (map token_address TOKENS)"
  shows "getTokenBalance test_ethers test_wallet t =
           ([BalanceOf t test_wallet, Decimals t, Symbol t],
            Inr \<lparr>tb_symbol = Some (str ''USDT''), tb_address = t,
                 tb_balance = Some (str ''1.000000''), tb_decimals = Some 6,
                 tb_error = None\<rparr>)"
proof -
  from assms have g: "getAddress test_ethers t = Inr t"
    by (simp add: test_ethers_def)
  have r: "contract_balanceOf test_ethers t test_wallet = Inr 1000000"
    "contract_decimals test_ethers t = Inr 6"
    "contract_symbol test_ethers t = Inr (str ''USDT'')"
    "formatUnits test_ethers 1000000 6 = Inr (str ''1.000000'')"
    by (simp_all add: test_ethers_def)
  show ?thesis
    by (simp add: prod_eq_iff getTokenBalance_calls getTokenBalance_cases g r)
qed

lemma fetchWalletInfo_test_wallet:
  "fetchWalletInfo test_ethers test_wallet =
     ([LookupAddress test_wallet, GetBalance test_wallet,
       BalanceOf (str ''0xdAC17F958D2ee523a2206206994597C13D831ec7'') test_wallet,
       Decimals (str ''0xdAC17F958D2ee523a2206206994597C13D831ec7''),
       Symbol (str ''0xdAC17F958D2ee523a2206206994597C13D831ec7''),
       BalanceOf (str ''0xA0b86991c6218b36c1d19D4a2e9Eb0cE3606eB48'') test_wallet,
       Decimals (str ''0xA0b86991c6218b36c1d19D4a2e9Eb0cE3606eB48''),
       Symbol (str ''0xA0b86991c6218b36c1d19D4a2e9Eb0cE3606eB48'')],
      Inr \<lparr>wi_address = test_wallet, wi_ensName = None, wi_balance = str ''1.5'',
           wi_tokenBalances =
             [\<lparr>tb_symbol = Some (str ''USDT''),
               tb_address = str ''0xdAC17F958D2ee523a2206206994597C13D831ec7'',
               tb_balance = Some (str ''1.000000''), tb_decimals = Some 6,
               tb_error = None\<rparr>,
              \<lparr>tb_symbol = Some (str ''USDT''),
               tb_address = str ''0xA0b86991c6218b36c1d19D4a2e9Eb0cE3606eB48'',
               tb_balance = Some (str ''1.000000''), tb_decimals = Some 6,
               tb_error = None\<rparr>]\<rparr>)"
proof -
  have r: "resolveAddressAndENS test_ethers test_wallet =
             ([LookupAddress test_wallet],
              Inr \<lparr>ri_address = test_wallet, ri_ensName = None\<rparr>)"
    by (simp add: resolve_address_path [OF test_wallet_not_ens] test_wallet_trim
        test_ethers_def)
  have t: "getTokenBalance test_ethers test_wallet
             (str ''0xdAC17F958D2ee523a2206206994597C13D831ec7'') =
           ([BalanceOf (str ''0xdAC17F958D2ee523a2206206994597C13D831ec7'') test_wallet,
             Decimals (str ''0xdAC17F958D2ee523a2206206994597C13D831ec7''),
             Symbol (str ''0xdAC17F958D2ee523a2206206994597C13D831ec7'')],
            Inr \<lparr>tb_symbol = Some (str ''USDT''),
                 tb_address = str ''0xdAC17F958D2ee523a2206206994597C13D831ec7'',
                 tb_balance = Some (str ''1.000000''), tb_decimals = Some 6,
                 tb_error = None\<rparr>)"
    "getTokenBalance test_ethers test_wallet
             (str ''0xA0b86991c6218b36c1d19D4a2e9Eb0cE3606eB48'') =
           ([BalanceOf (str ''0xA0b86991c6218b36c1d19D4a2e9Eb0cE3606eB48'') test_wallet,
             Decimals (str ''0xA0b86991c6218b36c1d19D4a2e9Eb0cE3606eB48''),
             Symbol (str ''0xA0b86991c6218b36c1d19D4a2e9Eb0cE3606eB48'')],
            Inr \<lparr>tb_symbol = Some (str ''USDT''),
                 tb_address = str ''0xA0b86991c6218b36c1d19D4a2e9Eb0cE3606eB48'',
                 tb_balance = Some (str ''1.000000''), tb_decimals = Some 6,
                 tb_error = None\<rparr>)"
    by (rule getTokenBalance_test_ethers, simp add: TOKENS_def)+
  have b: "getBalance test_ethers test_wallet = Inr 1500000000000000000"
    "formatEther test_ethers 1500000000000000000 = Inr (str ''1.5'')"
    by (simp_all add: test_ethers_def)
  show ?thesis
    by (simp add: fetchWalletInfo_def r TOKENS_def t b io_defs)
qed

text \<open>
  C5. A submission whose input is empty or consists of white space only issues no request
  to the node, never sets the loading flag to true, and sets the error message to
  \<open>Please enter a wallet address or ENS Name\<close>: the whole run is the call of
  \<open>preventDefault\<close> followed by that one \<open>setError\<close>.
\<close>

theorem blank_submit_only_sets_error:
  assumes "\<forall>c\<in>set (walletInput s). isWhiteSpace c"
  shows "handleSubmit E s =
           [PreventDefault, SetError (str ''Please enter a wallet address or ENS Name'')] \<and>
         (\<forall>c. Rpc c \<notin> set (handleSubmit E s)) \<and>
         SetIsLoading True \<notin> set (handleSubmit E s) \<and>
         error (run (handleSubmit E s) s) = str ''Please enter a wallet address or ENS Name''"
  by (simp add: handleSubmit_blank [OF assms] run_def)

theorem blank_submit_only_sets_error_witness:
  "list_all isWhiteSpace (walletInput blank_state) \<and>
   handleSubmit test_ethers blank_state =
     [PreventDefault, SetError (str ''Please enter a wallet address or ENS Name'')] \<and>
   (\<forall>c. Rpc c \<notin> set (handleSubmit test_ethers blank_state))"
proof -
  have a: "\<forall>c\<in>set (walletInput blank_state). isWhiteSpace c"
    by (simp add: blank_state_def str_def isWhiteSpace_def)
  from blank_submit_only_sets_error [OF a, of test_ethers] a show ?thesis
    by (simp add: list_all_iff)
qed

text \<open>
  C10. The early return on an empty or white-space-only input changes the error message
  and nothing else: the displayed \<open>walletInfo\<close>, the loading flag and the input text are
  what they were, and the run calls no setter other than \<open>setError\<close>.
\<close>

theorem blank_submit_frame:
  assumes "\<forall>c\<in>set (walletInput s). isWhiteSpace c"
  shows "run (handleSubmit E s) s =
           s\<lparr>error := str ''Please enter a wallet address or ENS Name''\<rparr> \<and>
         walletInfo (run (handleSubmit E s) s) = walletInfo s \<and>
         isLoading (run (handleSubmit E s) s) = isLoading s \<and>
         walletInput (run (handleSubmit E s) s) = walletInput s \<and>
         (\<forall>e\<in>set (handleSubmit E s). e = PreventDefault \<or> (\<exists>m. e = SetError m))"
  by (simp add: handleSubmit_blank [OF assms] run_def)

theorem blank_submit_frame_witness:
  "list_all isWhiteSpace (walletInput blank_state) \<and>
   walletInfo (run (handleSubmit test_ethers blank_state) blank_state) =
     Some \<lparr>wi_address = test_wallet, wi_ensName = None, wi_balance = str ''1.5'',
           wi_tokenBalances = []\<rparr> \<and>
   isLoading (run (handleSubmit test_ethers blank_state) blank_state) = False \<and>
   walletInput (run (handleSubmit test_ethers blank_state) blank_state) = str ''   ''"
proof -
  have a: "\<forall>c\<in>set (walletInput blank_state). isWhiteSpace c"
    by (simp add: blank_state_def str_def isWhiteSpace_def)
  from blank_submit_frame [OF a, of test_ethers] a show ?thesis
    by (simp add: blank_state_def list_all_iff)
qed

text \<open>
  The \<open>catch\<close> block of \<open>handleSubmit\<close> does not look at the error it caught: whatever
  was thrown, it sets one fixed message, and the \<open>finally\<close> block lowers the loading flag.
\<close>

lemma handleSubmit_failure_message:
  assumes "str_trim (walletInput s) \<noteq> []"
    and "snd (fetchWalletInfo E (str_trim (walletInput s))) = Inl err"
  shows "error (run (handleSubmit E s) s) =
           str ''Failed to fetch wallet information. Please try again later'' \<and>
         isLoading (run (handleSubmit E s) s) = False"
  using assms
  by (cases "fetchWalletInfo E (str_trim (walletInput s))")
     (simp add: handleSubmit_def run_def)

lemma fetchWalletInfo_api_error:
  "fetchWalletInfo api_error_ethers test_wallet =
     ([LookupAddress test_wallet, GetBalance test_wallet],
      Inl (JsError (Some (str ''Network error''))))"
  by (simp add: fetchWalletInfo_def resolve_address_path [OF test_wallet_not_ens]
      test_wallet_trim io_defs api_error_ethers_def test_ethers_def)

text \<open>
  C3. When the resolve and native-balance stage throws, the message shown should be the
  message of the thrown error followed by a retry hint, or a generic one when the error has
  no message, and loading should end. The test ``handles API errors gracefully'' of
  \<open>App.test.tsx\<close> submits the wallet address with a \<open>getBalance\<close> that rejects with
  \<open>new Error('Network error')\<close> and expects \<open>Network error. Please try again later\<close>.
  On that input the handler ends loading, but shows the generic message
  \<open>Failed to fetch wallet information. Please try again later\<close> instead.
\<close>

theorem handleSubmit_api_error_message:
  "handleSubmit api_error_ethers address_state =
     [PreventDefault, SetIsLoading True, SetError [], SetWalletInfo None,
      Rpc (LookupAddress test_wallet), Rpc (GetBalance test_wallet),
      SetError (str ''Failed to fetch wallet information. Please try again later''),
      SetIsLoading False] \<and>
   error (run (handleSubmit api_error_ethers address_state) address_state) =
     str ''Failed to fetch wallet information. Please try again later'' \<and>
   error (run (handleSubmit api_error_ethers address_state) address_state) \<noteq>
     str ''Network error. Please try again later'' \<and>
   isLoading (run (handleSubmit api_error_ethers address_state) address_state) = False"
proof -
  have n: "test_wallet \<noteq> []"
    by (simp add: test_wallet_def str_def)
  have a: "handleSubmit api_error_ethers address_state =
     [PreventDefault, SetIsLoading True, SetError [], SetWalletInfo None,
      Rpc (LookupAddress test_wallet), Rpc (GetBalance test_wallet),
      SetError (str ''Failed to fetch wallet information. Please try again later''),
      SetIsLoading False]"
    by (simp add: handleSubmit_def address_state_def test_wallet_trim
        fetchWalletInfo_api_error n)
  have b: "str ''Failed to fetch wallet information. Please try again later'' \<noteq>
           str ''Network error. Please try again later''"
    by (simp add: str_def)
  show ?thesis
    unfolding a by (simp add: run_def b)
qed

end
